theory Spec2Isabelle
  imports Main "HOL-Library.Word"
begin

section \<open>Data model\<close>

text \<open>
  A shallow embedding of \<^verbatim>\<open>graph/path/control_flow_lt.go\<close>: the Lengauer-Tarjan
  computation of the dominator tree of a flow graph.

  A \<^verbatim>\<open>graph.Node\<close> is identified with its \<^verbatim>\<open>int64\<close> ID, the only thing the code
  reads of it, and a \<^verbatim>\<open>graph.Directed\<close> with its \<^verbatim>\<open>From\<close> method. Every \<^verbatim>\<open>*ltNode\<close>
  is allocated by \<^verbatim>\<open>dfs\<close> and appended to \<^verbatim>\<open>lt.nodes\<close> at once, so a pointer is
  modelled by the position of its target in \<^verbatim>\<open>lt.nodes\<close> and \<^verbatim>\<open>nil\<close> by \<open>None\<close>.
  The \<^verbatim>\<open>label\<close> pointer is set to the node itself right after the allocation and is
  never \<^verbatim>\<open>nil\<close>. A bucket (a Go map used as a set) is a list without duplicates.

  A run either does not return (\<open>None\<close>), panics (\<open>Some (Inl e)\<close>) or returns a
  value (\<open>Some (Inr x)\<close>).
\<close>

type_synonym node = "64 word"

type_synonym graph = "node \<Rightarrow> node list"

datatype error = UninitializedNode | NilPointer | IndexOutOfRange

type_synonym 'a result = "(error + 'a) option"

record ltNode =
  node :: node
  parent :: "nat option"
  pred :: "nat list"
  semi :: nat
  bucket :: "nat list"
  dom' :: "nat option"
  ancestor :: "nat option"
  label :: nat

record lengauerTarjan =
  nodes :: "ltNode list"
  indexOf :: "node \<rightharpoonup> nat"

record DominatorTree =
  root :: node
  dominatorOf :: "node \<rightharpoonup> node"
  dominatedBy :: "node \<rightharpoonup> node list"

definition load :: "lengauerTarjan \<Rightarrow> nat \<Rightarrow> ltNode" where
  "load lt p = nodes lt ! p"

definition store :: "nat \<Rightarrow> (ltNode \<Rightarrow> ltNode) \<Rightarrow> lengauerTarjan \<Rightarrow> lengauerTarjan" where
  "store p f lt = lt\<lparr>nodes := (nodes lt)[p := f (nodes lt ! p)]\<rparr>"

definition bind_res :: "'a result \<Rightarrow> ('a \<Rightarrow> 'b result) \<Rightarrow> 'b result" where
  "bind_res m k = (case m of None \<Rightarrow> None | Some (Inl e) \<Rightarrow> Some (Inl e) | Some (Inr x) \<Rightarrow> k x)"

definition deref :: "nat option \<Rightarrow> (nat \<Rightarrow> 'b result) \<Rightarrow> 'b result" where
  "deref p k = (case p of None \<Rightarrow> Some (Inl NilPointer) | Some a \<Rightarrow> k a)"

definition index :: "lengauerTarjan \<Rightarrow> nat \<Rightarrow> (nat \<Rightarrow> 'b result) \<Rightarrow> 'b result" where
  "index lt i k = (if i < length (nodes lt) then k i else Some (Inl IndexOutOfRange))"

lemma bind_res_mono [partial_function_mono]:
  assumes mf: "mono_option B" and mg: "\<And>y. mono_option (\<lambda>f. C y f)"
  shows "mono_option (\<lambda>f. bind_res (B f) (\<lambda>y. C y f))"
proof -
  have eq: "\<And>m k. bind_res m k = Option.bind m (\<lambda>r. case r of Inl e \<Rightarrow> Some (Inl e) | Inr x \<Rightarrow> k x)"
    by (simp add: bind_res_def split: option.splits sum.splits)
  show ?thesis
    unfolding eq
  proof (rule bind_mono [OF mf])
    fix y
    show "mono_option (\<lambda>f. case y of Inl e \<Rightarrow> Some (Inl e) | Inr x \<Rightarrow> C x f)"
      by (cases y) (simp_all add: mg option.const_mono)
  qed
qed

lemma deref_mono [partial_function_mono]:
  assumes "\<And>a. mono_option (\<lambda>f. k f a)"
  shows "mono_option (\<lambda>f. deref p (k f))"
  by (cases p) (simp_all add: deref_def assms option.const_mono)

lemma index_mono [partial_function_mono]:
  assumes "\<And>a. mono_option (\<lambda>f. k f a)"
  shows "mono_option (\<lambda>f. index lt i (k f))"
  by (cases "i < length (nodes lt)") (simp_all add: index_def assms option.const_mono)

primrec for_each :: "'a list \<Rightarrow> 's \<Rightarrow> ('a \<Rightarrow> 's \<Rightarrow> 's result) \<Rightarrow> 's result" where
  "for_each [] s body = Some (Inr s)"
| "for_each (x # xs) s body = bind_res (body x s) (\<lambda>s'. for_each xs s' body)"

lemma for_each_mono [partial_function_mono]:
  assumes "\<And>x s. mono_option (\<lambda>f. body f x s)"
  shows "mono_option (\<lambda>f. for_each xs s (body f))"
proof (induction xs arbitrary: s)
  case Nil
  show ?case by (simp add: option.const_mono)
next
  case (Cons x xs)
  show ?case
    unfolding for_each.simps
    by (rule bind_res_mono) (rule assms, rule Cons.IH)
qed

section \<open>Depth-first search\<close>

partial_function (option) dfs :: "graph \<Rightarrow> node \<Rightarrow> lengauerTarjan \<Rightarrow> lengauerTarjan result" where
  "dfs g v lt =
    (let i = length (nodes lt);
         lt = lt\<lparr>indexOf := (indexOf lt)(v \<mapsto> i)\<rparr>;
         ltv = \<lparr>node = v, parent = None, pred = [], semi = i, bucket = [],
                dom' = None, ancestor = None, label = i\<rparr>;
         lt = lt\<lparr>nodes := nodes lt @ [ltv]\<rparr>
     in for_each (g v) lt (\<lambda>w lt.
          bind_res
            (case indexOf lt w of
               None \<Rightarrow>
                 bind_res (dfs g w lt) (\<lambda>lt.
                   case indexOf lt w of
                     None \<Rightarrow> Some (Inl UninitializedNode)
                   | Some idx \<Rightarrow>
                       index lt idx (\<lambda>p.
                         Some (Inr (store p (\<lambda>n. n\<lparr>parent := Some i\<rparr>) lt, idx))))
             | Some idx \<Rightarrow> Some (Inr (lt, idx)))
            (\<lambda>(lt, idx).
               index lt idx (\<lambda>ltw.
                 Some (Inr (store ltw (\<lambda>n. n\<lparr>pred := pred n @ [i]\<rparr>) lt))))))"

section \<open>The path-compression forest\<close>

partial_function (option) compress :: "lengauerTarjan \<Rightarrow> nat \<Rightarrow> lengauerTarjan result" where
  "compress lt v =
    deref (ancestor (load lt v)) (\<lambda>a.
      if ancestor (load lt a) \<noteq> None then
        bind_res (compress lt a) (\<lambda>lt.
          deref (ancestor (load lt v)) (\<lambda>a.
            let lt = (if semi (load lt (label (load lt a))) < semi (load lt (label (load lt v)))
                      then store v (\<lambda>n. n\<lparr>label := label (load lt a)\<rparr>) lt
                      else lt)
            in deref (ancestor (load lt v)) (\<lambda>a.
                 Some (Inr (store v (\<lambda>n. n\<lparr>ancestor := ancestor (load lt a)\<rparr>) lt)))))
      else Some (Inr lt))"

definition eval :: "lengauerTarjan \<Rightarrow> nat \<Rightarrow> (lengauerTarjan \<times> nat) result" where
  "eval lt v =
    (if ancestor (load lt v) = None then Some (Inr (lt, v))
     else bind_res (compress lt v) (\<lambda>lt. Some (Inr (lt, label (load lt v)))))"

definition link :: "nat option \<Rightarrow> nat \<Rightarrow> lengauerTarjan \<Rightarrow> lengauerTarjan" where
  "link v w lt = store w (\<lambda>n. n\<lparr>ancestor := v\<rparr>) lt"

section \<open>Semidominators and dominators\<close>

definition step2 :: "nat \<Rightarrow> lengauerTarjan \<Rightarrow> lengauerTarjan result" where
  "step2 w lt =
    for_each (pred (load lt w)) lt (\<lambda>v lt.
      bind_res (eval lt v) (\<lambda>(lt, u).
        Some (Inr (if semi (load lt u) < semi (load lt w)
                   then store w (\<lambda>n. n\<lparr>semi := semi (load lt u)\<rparr>) lt
                   else lt))))"

definition step3 :: "(nat \<Rightarrow> nat list \<Rightarrow> nat list) \<Rightarrow> nat \<Rightarrow> lengauerTarjan \<Rightarrow> lengauerTarjan result" where
  "step3 ord w lt =
    deref (parent (load lt w)) (\<lambda>p.
      for_each (ord w (bucket (load lt p))) lt (\<lambda>v lt.
        deref (parent (load lt w)) (\<lambda>p.
          let lt = store p (\<lambda>n. n\<lparr>bucket := removeAll v (bucket n)\<rparr>) lt
          in bind_res (eval lt v) (\<lambda>(lt, u).
               Some (Inr (if semi (load lt u) < semi (load lt v)
                          then store v (\<lambda>n. n\<lparr>dom' := Some u\<rparr>) lt
                          else store v (\<lambda>n. n\<lparr>dom' := parent (load lt w)\<rparr>) lt))))))"

definition iteration :: "(nat \<Rightarrow> nat list \<Rightarrow> nat list) \<Rightarrow> nat \<Rightarrow> lengauerTarjan \<Rightarrow> lengauerTarjan result" where
  "iteration ord i lt =
    index lt i (\<lambda>w.
      bind_res (step2 w lt) (\<lambda>lt.
        index lt (semi (load lt w)) (\<lambda>s.
          let lt = store s (\<lambda>n. n\<lparr>bucket := List.insert w (bucket n)\<rparr>) lt;
              lt = link (parent (load lt w)) w lt
          in step3 ord w lt)))"

primrec main_loop :: "(nat \<Rightarrow> nat list \<Rightarrow> nat list) \<Rightarrow> nat \<Rightarrow> lengauerTarjan \<Rightarrow> lengauerTarjan result" where
  "main_loop ord 0 lt = Some (Inr lt)"
| "main_loop ord (Suc i) lt = bind_res (iteration ord (Suc i) lt) (main_loop ord i)"

definition step4 :: "lengauerTarjan \<Rightarrow> lengauerTarjan result" where
  "step4 lt =
    (if length (nodes lt) < 1 then Some (Inl IndexOutOfRange)
     else for_each [1..<length (nodes lt)] lt (\<lambda>w lt.
       deref (dom' (load lt w)) (\<lambda>d.
         index lt (semi (load lt w)) (\<lambda>s.
           Some (Inr (if node (load lt d) \<noteq> node (load lt s)
                      then store w (\<lambda>n. n\<lparr>dom' := dom' (load lt d)\<rparr>) lt
                      else lt))))))"

definition build :: "node \<Rightarrow> lengauerTarjan \<Rightarrow> DominatorTree result" where
  "build r lt =
    (if length (nodes lt) < 1 then Some (Inl IndexOutOfRange)
     else for_each [1..<length (nodes lt)] \<lparr>root = r, dominatorOf = Map.empty, dominatedBy = Map.empty\<rparr>
       (\<lambda>w t.
         deref (dom' (load lt w)) (\<lambda>d.
           let did = node (load lt d)
           in Some (Inr (t\<lparr>dominatorOf := (dominatorOf t)(node (load lt w) \<mapsto> node (load lt d)),
                           dominatedBy := (dominatedBy t)(did \<mapsto>
                              (case dominatedBy t did of None \<Rightarrow> [] | Some ns \<Rightarrow> ns) @ [node (load lt w)])\<rparr>)))))"

definition Dominators :: "(nat \<Rightarrow> nat list \<Rightarrow> nat list) \<Rightarrow> node \<Rightarrow> graph \<Rightarrow> DominatorTree result" where
  "Dominators ord r g =
    bind_res (dfs g r \<lparr>nodes = [], indexOf = Map.empty\<rparr>) (\<lambda>lt.
      bind_res (main_loop ord (length (nodes lt) - 1) lt) (\<lambda>lt.
        bind_res (step4 lt) (\<lambda>lt. build r lt)))"

definition Root :: "DominatorTree \<Rightarrow> node" where
  "Root d = root d"

definition DominatorOf :: "DominatorTree \<Rightarrow> node \<Rightarrow> node option" where
  "DominatorOf d n = dominatorOf d n"

definition DominatedBy :: "DominatorTree \<Rightarrow> node \<Rightarrow> node list" where
  "DominatedBy d n = (case dominatedBy d n of None \<Rightarrow> [] | Some ns \<Rightarrow> ns)"

declare dfs.simps [code]
declare compress.simps [code]


section \<open>Concrete scenarios\<close>

definition diamond :: graph where
  "diamond v = (if v = 0 then [1, 2] else if v = 1 then [3] else if v = 2 then [3]
                else if v = 3 then [4] else [])"

text \<open>
  Claim C6. On the diamond with a tail (root \<open>0\<close>, \<open>A = 1\<close>, \<open>B = 2\<close>, \<open>C = 3\<close>, \<open>D = 4\<close>;
  edges root\<rightarrow>A, root\<rightarrow>B, A\<rightarrow>C, B\<rightarrow>C, C\<rightarrow>D) \<open>Dominators\<close> returns a tree with
  \<open>DominatorOf A = root\<close>, \<open>DominatorOf B = root\<close>, \<open>DominatorOf C = root\<close> and
  \<open>DominatorOf D = C\<close>, whether the buckets are ranged over in insertion order or in
  the reverse order.
\<close>

theorem diamond_dominators:
  "(case Dominators (\<lambda>i xs. xs) 0 diamond of
      Some (Inr t) \<Rightarrow> map (DominatorOf t) [1, 2, 3, 4] = [Some 0, Some 0, Some 0, Some 3]
    | _ \<Rightarrow> False) \<and>
   (case Dominators (\<lambda>i xs. rev xs) 0 diamond of
      Some (Inr t) \<Rightarrow> map (DominatorOf t) [1, 2, 3, 4] = [Some 0, Some 0, Some 0, Some 3]
    | _ \<Rightarrow> False)"
  by code_simp

end
